theory Spec2Isabelle
  imports Complex_Main "HOL-Library.Multiset"
begin

section \<open>Earnings mover scanner: session days, reaction metrics, consistency score\<close>

text \<open>
  A shallow embedding of \<^verbatim>\<open>earnings_mover_scanner/intraday.py\<close>,
  \<^verbatim>\<open>analyzer.py\<close> and \<^verbatim>\<open>consistency.py\<close>.

  Conventions of the embedding:
  \<^item> Python floats are idealised as \<^typ>\<open>real\<close>: rounding is not modelled where it only
    perturbs a value. Where it decides a branch, it is not idealised: the mean whose sign
    the scorer tests is the float64 mean that the library computes, a parameter of the
    model. Where the source divides without a guard (the baseline sample), the IEEE
    results \<open>inf\<close> and \<open>nan\<close> are values of the model.
  \<^item> A \<^verbatim>\<open>datetime.date\<close> is its proleptic Gregorian ordinal
    (\<^verbatim>\<open>date.toordinal()\<close>), from 1 for 0001-01-01 to 3652059 for 9999-12-31. In the
    session resolver a step of one day beyond these bounds raises
    \<^verbatim>\<open>OverflowError\<close>, and the date of a timestamp whose reading lies outside them
    raises \<^verbatim>\<open>NotImplementedError\<close>.
  \<^item> What the source leaves to its libraries is a parameter: the UTC offset of the
    zone \<^verbatim>\<open>US/Eastern\<close> (time zone database), the result of
    \<^verbatim>\<open>DataFrame.sort_values\<close> (the default sort kind is quicksort), the float64
    mean of a column, and the answers of the HTTP provider.
  \<^item> Exceptions are values: a function that can raise returns \<open>error + 'a\<close>.
\<close>

subsection \<open>Errors\<close>

datatype error =
    ValueError string
  | HTTPError nat
  | OverflowError
  | NotImplementedError

subsection \<open>Dates\<close>

type_synonym date = int

definition date_min :: date where
  \<comment> \<open>\<^verbatim>\<open>date.min.toordinal()\<close>, the first of January of the year 1\<close>
  "date_min = 1"

definition date_max :: date where
  \<comment> \<open>\<^verbatim>\<open>date.max.toordinal()\<close>, the last of December of the year 9999\<close>
  "date_max = 3652059"

definition weekday :: "date \<Rightarrow> int" where
  \<comment> \<open>\<^verbatim>\<open>date.weekday()\<close>: Monday is 0, Saturday 5, Sunday 6; ordinal 1 is a Monday.\<close>
  "weekday d = (d + 6) mod 7"

definition add_days :: "date \<Rightarrow> int \<Rightarrow> error + date" where
  \<comment> \<open>\<^verbatim>\<open>day + timedelta(days=n)\<close>: a result outside the range of dates raises\<close>
  "add_days day n =
     (if date_min \<le> day + n \<and> day + n \<le> date_max then Inr (day + n) else Inl OverflowError)"

function next_trading_day_while :: "date \<Rightarrow> error + date" where
  \<comment> \<open>\<^verbatim>\<open>while next_day.weekday() >= 5: next_day += timedelta(days=1)\<close>\<close>
  "next_trading_day_while next_day =
     (if weekday next_day \<ge> 5
      then (case add_days next_day 1 of
              Inl e \<Rightarrow> Inl e
            | Inr d \<Rightarrow> next_trading_day_while d)
      else Inr next_day)"
  by pat_completeness auto
termination
proof (relation "measure (\<lambda>d. nat ((7 - weekday d) mod 7))")
  show "wf (measure (\<lambda>d. nat ((7 - weekday d) mod 7)))"
    by simp
next
  fix next_day d :: int
  assume weekend: "5 \<le> weekday next_day" and step: "add_days next_day 1 = Inr d"
  from step have d: "d = next_day + 1"
    by (simp add: add_days_def split: if_splits)
  from weekend have "(7 - weekday (next_day + 1)) mod 7 < (7 - weekday next_day) mod 7"
    unfolding weekday_def by presburger
  moreover have "0 \<le> (7 - weekday (next_day + 1)) mod 7"
    by simp
  ultimately show "(d, next_day) \<in> measure (\<lambda>d. nat ((7 - weekday d) mod 7))"
    unfolding d by simp
qed

declare next_trading_day_while.simps [simp del]

definition next_trading_day :: "date \<Rightarrow> error + date" where
  "next_trading_day day =
     (case add_days day 1 of
        Inl e \<Rightarrow> Inl e
      | Inr next_day \<Rightarrow> next_trading_day_while next_day)"

function previous_trading_day_while :: "date \<Rightarrow> error + date" where
  \<comment> \<open>\<^verbatim>\<open>while prev_day.weekday() >= 5: prev_day -= timedelta(days=1)\<close>\<close>
  "previous_trading_day_while prev_day =
     (if weekday prev_day \<ge> 5
      then (case add_days prev_day (- 1) of
              Inl e \<Rightarrow> Inl e
            | Inr d \<Rightarrow> previous_trading_day_while d)
      else Inr prev_day)"
  by pat_completeness auto
termination
proof (relation "measure (\<lambda>d. nat ((weekday d + 3) mod 7))")
  show "wf (measure (\<lambda>d. nat ((weekday d + 3) mod 7)))"
    by simp
next
  fix prev_day d :: int
  assume weekend: "5 \<le> weekday prev_day" and step: "add_days prev_day (- 1) = Inr d"
  from step have d: "d = prev_day - 1"
    by (simp add: add_days_def split: if_splits)
  from weekend have "(weekday (prev_day - 1) + 3) mod 7 < (weekday prev_day + 3) mod 7"
    unfolding weekday_def by presburger
  moreover have "0 \<le> (weekday (prev_day - 1) + 3) mod 7"
    by simp
  ultimately show "(d, prev_day) \<in> measure (\<lambda>d. nat ((weekday d + 3) mod 7))"
    unfolding d by simp
qed

declare previous_trading_day_while.simps [simp del]

definition previous_trading_day :: "date \<Rightarrow> error + date" where
  "previous_trading_day day =
     (case add_days day (- 1) of
        Inl e \<Rightarrow> Inl e
      | Inr prev_day \<Rightarrow> previous_trading_day_while prev_day)"

subsection \<open>Timestamps\<close>

text \<open>
  A timestamp is counted in nanoseconds, as an integer without bound: the unit a pandas
  timestamp stores does not change its calendar date. \<open>Naive w\<close> has no zone: \<open>w\<close> is its
  wall-clock reading, in nanoseconds since 1970-01-01T00:00 on that clock. \<open>Aware i\<close> has a
  zone and denotes the instant \<open>i\<close>, in nanoseconds since the Unix epoch; its own zone is
  not kept, because the program reads an aware timestamp only through
  \<^verbatim>\<open>tz_convert\<close>, which keeps the instant.
\<close>

datatype timestamp = Naive int | Aware int

definition ns_per_day :: int where
  "ns_per_day = 86400000000000"

definition epoch_ordinal :: date where
  \<comment> \<open>\<^verbatim>\<open>date(1970, 1, 1).toordinal()\<close>\<close>
  "epoch_ordinal = 719163"

definition date_of_ns :: "int \<Rightarrow> date" where
  \<comment> \<open>the calendar date of a wall-clock reading\<close>
  "date_of_ns w = epoch_ordinal + w div ns_per_day"

definition normalize_timestamp :: "timestamp \<Rightarrow> int" where
  \<comment> \<open>\<^verbatim>\<open>_normalize_timestamp\<close>: the instant of the result, whose zone is
     \<^verbatim>\<open>EASTERN\<close>. A naive timestamp is localized to UTC first, so its wall-clock
     reading is taken as the instant.\<close>
  "normalize_timestamp v = (case v of Naive w \<Rightarrow> w | Aware i \<Rightarrow> i)"

definition eastern_date :: "(int \<Rightarrow> int) \<Rightarrow> int \<Rightarrow> date" where
  \<comment> \<open>the ordinal of the calendar day that zone \<^verbatim>\<open>EASTERN\<close> reads at instant \<open>i\<close>;
     \<open>eastern i\<close> is the zone's UTC offset at \<open>i\<close>, in nanoseconds.\<close>
  "eastern_date eastern i = date_of_ns (i + eastern i)"

definition timestamp_date :: "(int \<Rightarrow> int) \<Rightarrow> int \<Rightarrow> error + date" where
  \<comment> \<open>\<^verbatim>\<open>Timestamp.date()\<close> in zone \<^verbatim>\<open>EASTERN\<close>: a reading outside the years 1 to
     9999 has no \<^verbatim>\<open>datetime.date\<close>, and pandas raises\<close>
  "timestamp_date eastern i =
     (let day = eastern_date eastern i in
      if date_min \<le> day \<and> day \<le> date_max then Inr day else Inl NotImplementedError)"

subsection \<open>Strings\<close>

definition upper_char :: "char \<Rightarrow> char" where
  "upper_char c =
     (case map_of (zip ''abcdefghijklmnopqrstuvwxyz'' ''ABCDEFGHIJKLMNOPQRSTUVWXYZ'') c of
        Some u \<Rightarrow> u
      | None \<Rightarrow> c)"

definition upper :: "string \<Rightarrow> string" where
  \<comment> \<open>\<^verbatim>\<open>str.upper()\<close> on ASCII text\<close>
  "upper s = map upper_char s"

subsection \<open>Session resolver\<close>

definition get_session_day :: "(int \<Rightarrow> int) \<Rightarrow> timestamp \<Rightarrow> string \<Rightarrow> error + date" where
  "get_session_day eastern earnings_date release_flag =
     (let release_flag = upper release_flag in
      if release_flag \<noteq> ''AMC'' \<and> release_flag \<noteq> ''BMO''
      then Inl (ValueError ''release_flag must be 'AMC' or 'BMO'.'')
      else
        let earnings_ts = normalize_timestamp earnings_date in
        if release_flag = ''AMC''
        then (case timestamp_date eastern earnings_ts of
                Inl e \<Rightarrow> Inl e
              | Inr day \<Rightarrow> next_trading_day day)
        else timestamp_date eastern earnings_ts)"

subsection \<open>Provider client\<close>

text \<open>
  One aggregate of the provider's JSON answer: \<open>t\<close> in milliseconds since the epoch,
  then open, high, low, close and volume. The provider's answers are not part of the
  program, so the two requests of the client are fields of a record:
  \<^item> \<open>request_minute_aggs c ticker day\<close> is \<^verbatim>\<open>_request\<close> on the 5-minute range
    of \<open>day\<close> from 09:30 to 16:00 Eastern;
  \<^item> \<open>request_day_aggs c ticker start_day end_day limit\<close> is \<^verbatim>\<open>_request\<close> on the
    daily range from \<open>start_day\<close> 00:00:00 UTC to \<open>end_day\<close> 23:59:59 UTC.
  Each is \<open>Inl\<close> when \<^verbatim>\<open>raise_for_status\<close> raises and otherwise the list under the
  key \<^verbatim>\<open>results\<close> (empty when the key is missing).
\<close>

record agg =
  agg_t :: int
  agg_o :: real
  agg_h :: real
  agg_l :: real
  agg_c :: real
  agg_v :: real

record client =
  request_minute_aggs :: "string \<Rightarrow> date \<Rightarrow> error + agg list"
  request_day_aggs :: "string \<Rightarrow> date \<Rightarrow> date \<Rightarrow> nat \<Rightarrow> error + agg list"

record bar =
  bar_timestamp :: int
  bar_open :: real
  bar_high :: real
  bar_low :: real
  bar_close :: real
  bar_volume :: real

record daily_bar =
  bar_date :: date
  day_open :: real
  day_high :: real
  day_low :: real
  day_close :: real
  day_volume :: real

definition fetch_agg_bars :: "client \<Rightarrow> string \<Rightarrow> date \<Rightarrow> error + bar list" where
  \<comment> \<open>\<^verbatim>\<open>_fetch_agg_bars\<close> on the regular session of \<open>session_day\<close>; no result gives the
     empty frame\<close>
  "fetch_agg_bars c ticker session_day =
     (case request_minute_aggs c ticker session_day of
        Inl e \<Rightarrow> Inl e
      | Inr results \<Rightarrow>
          Inr (map (\<lambda>a. \<lparr>bar_timestamp = agg_t a * 1000000, bar_open = agg_o a,
                         bar_high = agg_h a, bar_low = agg_l a, bar_close = agg_c a,
                         bar_volume = agg_v a\<rparr>) results))"

definition get_intraday_window ::
  "client \<Rightarrow> (int \<Rightarrow> int) \<Rightarrow> string \<Rightarrow> timestamp \<Rightarrow> string \<Rightarrow> error + bar list" where
  "get_intraday_window c eastern ticker earnings_date release_flag =
     (let release_flag = upper release_flag in
      if release_flag \<noteq> ''AMC'' \<and> release_flag \<noteq> ''BMO''
      then Inl (ValueError ''release_flag must be 'AMC' or 'BMO'.'')
      else
        case get_session_day eastern earnings_date release_flag of
          Inl e \<Rightarrow> Inl e
        | Inr session_day \<Rightarrow> fetch_agg_bars c ticker session_day)"

definition get_previous_close :: "client \<Rightarrow> string \<Rightarrow> date \<Rightarrow> error + real option" where
  "get_previous_close c ticker session_day =
     (case previous_trading_day session_day of
        Inl e \<Rightarrow> Inl e
      | Inr prev_day \<Rightarrow>
          (case request_day_aggs c ticker prev_day prev_day 2 of
             Inl e \<Rightarrow> Inl e
           | Inr results \<Rightarrow>
               if results = [] then Inr None else Inr (Some (agg_c (last results)))))"

definition get_daily_bars ::
  "client \<Rightarrow> (int \<Rightarrow> int) \<Rightarrow> string \<Rightarrow> date \<Rightarrow> date \<Rightarrow> error + daily_bar list" where
  "get_daily_bars c eastern ticker start_day end_day =
     (case request_day_aggs c ticker start_day end_day 5000 of
        Inl e \<Rightarrow> Inl e
      | Inr results \<Rightarrow>
          Inr (map (\<lambda>a. \<lparr>bar_date = eastern_date eastern (agg_t a * 1000000),
                         day_open = agg_o a, day_high = agg_h a, day_low = agg_l a,
                         day_close = agg_c a, day_volume = agg_v a\<rparr>) results))"

subsection \<open>Event reaction analyzer\<close>

text \<open>
  A cell of the column \<^verbatim>\<open>release_flag\<close> is text or one of the missing-value markers;
  \<open>py_str\<close> is Python's \<^verbatim>\<open>str\<close> on it. A missing announcement timestamp
  (\<^verbatim>\<open>NaT\<close>) is \<open>None\<close>. The fields of a metric record are the keys of the
  appended dictionary, with the prefix \<open>m_\<close>.
\<close>

datatype pyval = Text string | PyNone | PdNA | FloatNaN

fun py_str :: "pyval \<Rightarrow> string" where
  "py_str (Text s) = s"
| "py_str PyNone = ''None''"
| "py_str PdNA = ''<NA>''"
| "py_str FloatNaN = ''nan''"

record event =
  ev_ticker :: string
  ev_earnings_date :: "timestamp option"
  ev_period :: string
  ev_release_flag :: pyval

record metric =
  m_ticker :: string
  m_earnings_date :: timestamp
  m_release_flag :: string
  m_session_day :: date
  m_gap_ret :: "real option"
  m_oc_ret :: "real option"
  m_range_pct :: "real option"
  m_open :: real
  m_close :: real
  m_high :: real
  m_low :: real
  m_prev_close :: "real option"

definition reaction_metrics ::
  "string \<Rightarrow> timestamp \<Rightarrow> string \<Rightarrow> date \<Rightarrow> bar list \<Rightarrow> real option \<Rightarrow> metric" where
  \<comment> \<open>the body of the loop of \<^verbatim>\<open>analyze_ticker\<close> from \<^verbatim>\<open>open_price = ...\<close> to
     the appended record, for a frame \<open>intraday_df\<close> that is not empty\<close>
  "reaction_metrics ticker earnings_date release_flag session_day intraday_df prev_close =
     (let open_price = bar_open (hd intraday_df);
          close_price = bar_close (last intraday_df);
          high_price = Max (set (map bar_high intraday_df));
          low_price = Min (set (map bar_low intraday_df));
          gap_ret = (case prev_close of
                       None \<Rightarrow> None
                     | Some p \<Rightarrow> if p \<noteq> 0 then Some (open_price / p - 1) else None);
          oc_ret = (if open_price \<noteq> 0 then Some (close_price / open_price - 1) else None);
          range_pct = (if open_price \<noteq> 0
                       then Some ((high_price - low_price) / open_price) else None)
      in \<lparr>m_ticker = ticker, m_earnings_date = earnings_date,
          m_release_flag = release_flag, m_session_day = session_day, m_gap_ret = gap_ret,
          m_oc_ret = oc_ret, m_range_pct = range_pct, m_open = open_price,
          m_close = close_price, m_high = high_price, m_low = low_price,
          m_prev_close = prev_close\<rparr>)"

definition analyze_event ::
  "client \<Rightarrow> (int \<Rightarrow> int) \<Rightarrow> string \<Rightarrow> event \<Rightarrow> error + metric option" where
  \<comment> \<open>one pass through the loop body: \<open>Inr None\<close> is \<^verbatim>\<open>continue\<close>, \<open>Inr (Some r)\<close>
     is \<^verbatim>\<open>records.append(r)\<close>, \<open>Inl\<close> an exception that leaves the loop\<close>
  "analyze_event c eastern ticker ev =
     (let release_flag = upper (py_str (ev_release_flag ev)) in
      if release_flag \<noteq> ''AMC'' \<and> release_flag \<noteq> ''BMO'' then Inr None
      else
        case ev_earnings_date ev of
          None \<Rightarrow> Inr None
        | Some earnings_date \<Rightarrow>
            (case get_session_day eastern earnings_date release_flag of
               Inl e \<Rightarrow> Inl e
             | Inr session_day \<Rightarrow>
                 (case get_intraday_window c eastern ticker earnings_date release_flag of
                    Inl e \<Rightarrow> Inl e
                  | Inr intraday_df \<Rightarrow>
                      if intraday_df = [] then Inr None
                      else
                        (case get_previous_close c ticker session_day of
                           Inl e \<Rightarrow> Inl e
                         | Inr prev_close \<Rightarrow>
                             Inr (Some (reaction_metrics ticker earnings_date release_flag
                                          session_day intraday_df prev_close))))))"

fun analyze_loop ::
  "client \<Rightarrow> (int \<Rightarrow> int) \<Rightarrow> string \<Rightarrow> event list \<Rightarrow> metric list \<Rightarrow> error + metric list" where
  "analyze_loop c eastern ticker [] records = Inr records"
| "analyze_loop c eastern ticker (ev # events_sorted) records =
     (case analyze_event c eastern ticker ev of
        Inl e \<Rightarrow> Inl e
      | Inr None \<Rightarrow> analyze_loop c eastern ticker events_sorted records
      | Inr (Some r) \<Rightarrow> analyze_loop c eastern ticker events_sorted (records @ [r]))"

definition analyze_ticker ::
  "client \<Rightarrow> (int \<Rightarrow> int) \<Rightarrow> (event list \<Rightarrow> event list) \<Rightarrow> string \<Rightarrow> event list
     \<Rightarrow> error + metric list" where
  \<comment> \<open>\<open>sort_values\<close> is \<^verbatim>\<open>events.sort_values("earnings_date")\<close>\<close>
  "analyze_ticker c eastern sort_values ticker events =
     (if events = [] then Inr []
      else analyze_loop c eastern ticker (sort_values events) [])"

subsection \<open>Consistency scorer\<close>

text \<open>
  The pandas operations the scorer uses, on columns as lists. The baseline sample divides
  \<^verbatim>\<open>close\<close> by \<^verbatim>\<open>open\<close> without a guard, so its values are floats with the IEEE
  specials: a finite number, \<open>inf\<close> (a non-zero close over a zero open, after
  \<^verbatim>\<open>abs\<close>) or \<open>nan\<close> (zero over zero).
\<close>

datatype fval = Fin real | PosInf | NaN

text \<open>
  \<^verbatim>\<open>valid_events["oc_ret"].mean()\<close> is a float64 sum divided by the count; the order
  of the additions is the library's. The scorer takes it as the parameter \<open>float_mean\<close>.
  \<open>mean64\<close> is that mean with the additions from left to right, each rounded to the
  nearest float64 (53 significant bits, multiples of \<open>2 ^ - 1074\<close> at least, ties to
  the even neighbour; overflow is not modelled): for fewer than eight values every
  summation in use adds in this order.
\<close>

function bit_length :: "int \<Rightarrow> nat" where
  \<comment> \<open>\<^verbatim>\<open>int.bit_length()\<close> of a number that is not negative\<close>
  "bit_length n = (if n \<le> 0 then 0 else Suc (bit_length (n div 2)))"
  by pat_completeness auto
termination
  by (relation "measure nat") auto

declare bit_length.simps [simp del]

definition round_half_even :: "real \<Rightarrow> int" where
  "round_half_even y =
     (let f = \<lfloor>y\<rfloor>; d = y - of_int f in
      if d < 1 / 2 then f else if 1 / 2 < d then f + 1 else if even f then f else f + 1)"

definition round64 :: "real \<Rightarrow> real" where
  \<comment> \<open>the float64 nearest to \<open>x\<close>: \<open>y\<close> counts \<open>x\<close> in units of \<open>2 ^ - 1074\<close>, and a
     \<open>y\<close> of more than 53 bits keeps its leading 53\<close>
  "round64 x =
     (let y = x * 2 ^ 1074; b = bit_length \<lfloor>\<bar>y\<bar>\<rfloor> in
      if b \<le> 53 then of_int (round_half_even y) / 2 ^ 1074
      else of_int (round_half_even (y / 2 ^ (b - 53))) * 2 ^ (b - 53) / 2 ^ 1074)"

definition mean64 :: "real list \<Rightarrow> real" where
  "mean64 xs = round64 (foldl (\<lambda>acc x. round64 (acc + x)) 0 xs / real (length xs))"

definition bool_mean :: "bool list \<Rightarrow> real" where
  \<comment> \<open>\<^verbatim>\<open>.mean()\<close> of a boolean column: the fraction of \<^verbatim>\<open>True\<close>\<close>
  "bool_mean bs = real (length (filter (\<lambda>b. b) bs)) / real (length bs)"

definition median :: "real list \<Rightarrow> real" where
  \<comment> \<open>\<^verbatim>\<open>.median()\<close> of a column of numbers that is not empty\<close>
  "median xs =
     (let s = sort xs; n = length s in
      if odd n then s ! (n div 2) else (s ! (n div 2 - 1) + s ! (n div 2)) / 2)"

fun finite_values :: "fval list \<Rightarrow> real list" where
  "finite_values [] = []"
| "finite_values (Fin r # xs) = r # finite_values xs"
| "finite_values (PosInf # xs) = finite_values xs"
| "finite_values (NaN # xs) = finite_values xs"

definition nanmedian :: "fval list \<Rightarrow> fval" where
  \<comment> \<open>\<^verbatim>\<open>.median()\<close> with \<^verbatim>\<open>skipna\<close>: \<open>nan\<close> is dropped, \<open>inf\<close> sorts last, and
     nothing left gives \<open>nan\<close>\<close>
  "nanmedian xs =
     (let fin = sort (finite_values xs);
          n = length fin + length (filter (\<lambda>x. x = PosInf) xs)
      in if n = 0 then NaN
         else if n div 2 < length fin
         then (if odd n then Fin (fin ! (n div 2))
               else Fin ((fin ! (n div 2 - 1) + fin ! (n div 2)) / 2))
         else PosInf)"

definition head :: "int \<Rightarrow> 'a list \<Rightarrow> 'a list" where
  \<comment> \<open>\<^verbatim>\<open>.head(n)\<close>: the first \<open>n\<close> rows, all but the last \<open>-n\<close> for a negative \<open>n\<close>\<close>
  "head n xs = (if 0 \<le> n then take (nat n) xs else take (length xs - nat (- n)) xs)"

definition abs_oc_ret :: "daily_bar \<Rightarrow> fval" where
  \<comment> \<open>\<^verbatim>\<open>(close / open - 1).abs()\<close> of one daily bar\<close>
  "abs_oc_ret b =
     (if day_open b \<noteq> 0 then Fin \<bar>day_close b / day_open b - 1\<bar>
      else if day_close b = 0 then NaN else PosInf)"

record scorer =
  intraday_client :: client
  sample_non_earnings_days :: int
  non_earnings_lookback_days :: int

definition ConsistencyScorer :: "client \<Rightarrow> scorer" where
  \<comment> \<open>the dataclass with its default field values\<close>
  "ConsistencyScorer c =
     \<lparr>intraday_client = c, sample_non_earnings_days = 10, non_earnings_lookback_days = 120\<rparr>"

record score_record =
  s_hit_main_dir :: real
  s_big_move_hit :: real
  s_boost :: real
  s_score :: real
  s_events_count :: nat

definition zero_record :: score_record where
  "zero_record =
     \<lparr>s_hit_main_dir = 0, s_big_move_hit = 0, s_boost = 0, s_score = 0, s_events_count = 0\<rparr>"

definition median_abs_oc_non_earnings ::
  "scorer \<Rightarrow> (int \<Rightarrow> int) \<Rightarrow> (daily_bar list \<Rightarrow> daily_bar list) \<Rightarrow> string \<Rightarrow> metric list
     \<Rightarrow> error + fval" where
  \<comment> \<open>\<open>sort_desc\<close> is \<^verbatim>\<open>sort_values("date", ascending=False)\<close>\<close>
  "median_abs_oc_non_earnings sc eastern sort_desc ticker events_metrics =
     (let session_days = map m_session_day events_metrics in
      if session_days = [] then Inr (Fin 0)
      else
        let end_day = Max (set session_days);
            start_day = end_day - non_earnings_lookback_days sc
        in case get_daily_bars (intraday_client sc) eastern ticker start_day end_day of
             Inl e \<Rightarrow> Inl e
           | Inr daily_bars \<Rightarrow>
               if daily_bars = [] then Inr (Fin 0)
               else
                 let candidates =
                       head (sample_non_earnings_days sc)
                         (sort_desc (filter (\<lambda>b. bar_date b \<notin> set session_days) daily_bars))
                 in if candidates = [] then Inr (Fin 0)
                    else Inr (nanmedian (map abs_oc_ret candidates)))"

definition boost_of :: "real \<Rightarrow> fval \<Rightarrow> real" where
  \<comment> \<open>\<^verbatim>\<open>e / b if b and b > 0 else 0.0\<close>: \<open>nan\<close> is truthy but not positive, and a
     finite number over \<open>inf\<close> is zero\<close>
  "boost_of earnings_median_abs non_earnings_median_abs =
     (case non_earnings_median_abs of
        Fin b \<Rightarrow> if b \<noteq> 0 \<and> b > 0 then earnings_median_abs / b else 0
      | PosInf \<Rightarrow> 0
      | NaN \<Rightarrow> 0)"

definition score ::
  "scorer \<Rightarrow> (int \<Rightarrow> int) \<Rightarrow> (daily_bar list \<Rightarrow> daily_bar list) \<Rightarrow> (real list \<Rightarrow> real)
     \<Rightarrow> string \<Rightarrow> metric list \<Rightarrow> error + score_record" where
  \<comment> \<open>\<open>float_mean\<close> is \<^verbatim>\<open>.mean()\<close> on the column \<^verbatim>\<open>oc_ret\<close>\<close>
  "score sc eastern sort_desc float_mean ticker events_metrics =
     (if events_metrics = [] then Inr zero_record
      else
        let valid_events = filter (\<lambda>m. m_oc_ret m \<noteq> None) events_metrics;
            events_count = length valid_events
        in if events_count = 0 then Inr zero_record
           else
             let oc = List.map_filter m_oc_ret valid_events;
                 mean_oc = float_mean oc;
                 sign_mean = (if mean_oc > 0 then 1 else if mean_oc < 0 then - 1 else (0::int));
                 hit_main_dir =
                   (if sign_mean = 0 then 0
                    else
                      let signs = map (\<lambda>x. if x > 0 then 1 else if x < 0 then - 1 else (0::int)) oc
                      in bool_mean (map (\<lambda>s. s = sign_mean) signs));
                 big_move_hit = bool_mean (map (\<lambda>x. \<bar>x\<bar> \<ge> 0.02) oc);
                 earnings_median_abs = median (map abs oc)
             in case median_abs_oc_non_earnings sc eastern sort_desc ticker valid_events of
                  Inl e \<Rightarrow> Inl e
                | Inr non_earnings_median_abs \<Rightarrow>
                    let boost = boost_of earnings_median_abs non_earnings_median_abs;
                        score = 0.5 * hit_main_dir + 0.3 * big_move_hit + 0.2 * boost
                    in Inr \<lparr>s_hit_main_dir = hit_main_dir, s_big_move_hit = big_move_hit,
                            s_boost = boost, s_score = score,
                            s_events_count = events_count\<rparr>)"

subsection \<open>Example inputs\<close>

text \<open>
  A provider that answers every request with the same session (open 100, high 110, low 95,
  close 105 over two bars) and the same previous close 98, and an announcement on Monday
  2024-01-15 at 13:30 UTC.
\<close>

definition example_client :: client where
  "example_client =
     \<lparr>request_minute_aggs = (\<lambda>ticker day.
        Inr [\<lparr>agg_t = 0, agg_o = 100, agg_h = 108, agg_l = 99, agg_c = 107, agg_v = 1\<rparr>,
             \<lparr>agg_t = 300000, agg_o = 107, agg_h = 110, agg_l = 95, agg_c = 105, agg_v = 1\<rparr>]),
      request_day_aggs = (\<lambda>ticker start_day end_day limit.
        Inr [\<lparr>agg_t = 0, agg_o = 97, agg_h = 99, agg_l = 96, agg_c = 98, agg_v = 1\<rparr>])\<rparr>"

definition est :: "int \<Rightarrow> int" where
  \<comment> \<open>a zone five hours behind UTC throughout\<close>
  "est i = - 18000000000000"

definition local_mean_time :: "int \<Rightarrow> int" where
  \<comment> \<open>a zone 4:56:02 behind UTC throughout\<close>
  "local_mean_time i = - 17762000000000"

definition example_event :: "string \<Rightarrow> event" where
  "example_event flag =
     \<lparr>ev_ticker = ''X'', ev_earnings_date = Some (Aware 1705325400000000000),
      ev_period = ''Q4'', ev_release_flag = Text flag\<rparr>"

text \<open>
  A metrics table with four present open-to-close returns (0.04, 0.03, 0.03, 0.01) and
  one absent, a table with none present, a provider whose daily bars move by 0.03, 0.01 and
  0.01 on three ordinary days and by 0.5 on the session day 2024-01-15, and a sort that puts
  the newest bar first.
\<close>

definition example_metric :: "date \<Rightarrow> real \<Rightarrow> real \<Rightarrow> metric" where
  "example_metric day open_price close_price =
     \<lparr>m_ticker = ''X'', m_earnings_date = Aware 0, m_release_flag = ''BMO'',
      m_session_day = day, m_gap_ret = None,
      m_oc_ret = (if open_price \<noteq> 0 then Some (close_price / open_price - 1) else None),
      m_range_pct = (if open_price \<noteq> 0 then Some 0 else None),
      m_open = open_price, m_close = close_price, m_high = close_price, m_low = close_price,
      m_prev_close = None\<rparr>"

definition example_table :: "metric list" where
  "example_table =
     [example_metric 738627 100 104, example_metric 738718 100 103,
      example_metric 738536 0 5,
      example_metric 738809 100 103, example_metric 738900 100 101]"

definition baseline_client :: client where
  "baseline_client =
     \<lparr>request_minute_aggs = (\<lambda>ticker day. Inr []),
      request_day_aggs = (\<lambda>ticker start_day end_day limit.
        Inr [\<lparr>agg_t = 1704862800000, agg_o = 200, agg_h = 206, agg_l = 200, agg_c = 206, agg_v = 1\<rparr>,
             \<lparr>agg_t = 1704949200000, agg_o = 100, agg_h = 101, agg_l = 100, agg_c = 101, agg_v = 1\<rparr>,
             \<lparr>agg_t = 1705035600000, agg_o = 100, agg_h = 100, agg_l = 99, agg_c = 99, agg_v = 1\<rparr>,
             \<lparr>agg_t = 1705294800000, agg_o = 100, agg_h = 150, agg_l = 100, agg_c = 150, agg_v = 1\<rparr>])\<rparr>"

definition newest_first :: "daily_bar list \<Rightarrow> daily_bar list" where
  "newest_first bars = rev (sort_key bar_date bars)"

definition dyadic_table :: "metric list" where
  \<comment> \<open>returns 1/2 and 1/4\<close>
  "dyadic_table = [example_metric 738809 100 150, example_metric 738900 100 125]"

definition rounding_table :: "metric list" where
  \<comment> \<open>returns 1, \<open>2 ^ - 60\<close> and - 1\<close>
  "rounding_table =
     [example_metric 738718 100 200,
      (example_metric 738809 100 100)\<lparr>m_oc_ret := Some (1 / 2 ^ 60)\<rparr>,
      example_metric 738900 100 0]"

definition flat_table :: "metric list" where
  "flat_table = [example_metric 738627 0 104, example_metric 738718 0 103]"

section \<open>Properties\<close>

subsection \<open>Trading days\<close>

lemma weekend_before_date_max:
  assumes "5 \<le> weekday d" and "d \<le> date_max"
  shows "d + 1 \<le> date_max"
proof -
  have "weekday date_max = 4"
    by (simp add: weekday_def date_max_def)
  with assms(1) have "d \<noteq> date_max"
    by auto
  with assms(2) show ?thesis
    by simp
qed

lemma next_trading_day_while_result:
  assumes "date_min \<le> next_day" and "next_day \<le> date_max"
  shows "\<exists>r. next_trading_day_while next_day = Inr r \<and> next_day \<le> r \<and> r \<le> date_max
           \<and> weekday r < 5 \<and> (\<forall>d. next_day \<le> d \<and> d < r \<longrightarrow> 5 \<le> weekday d)"
  using assms
proof (induction next_day rule: next_trading_day_while.induct)
  case (1 next_day)
  show ?case
  proof (cases "5 \<le> weekday next_day")
    case True
    note weekend = True
    from weekend "1.prems"(2) have upper: "next_day + 1 \<le> date_max"
      by (rule weekend_before_date_max)
    with "1.prems"(1) have step: "add_days next_day 1 = Inr (next_day + 1)"
      by (simp add: add_days_def)
    from "1.prems"(1) have lower: "date_min \<le> next_day + 1"
      by simp
    from "1.IH" [OF weekend step lower upper]
    obtain r where run: "next_trading_day_while (next_day + 1) = Inr r"
      and ge: "next_day + 1 \<le> r" and le: "r \<le> date_max" and wd: "weekday r < 5"
      and skipped: "\<forall>d. next_day + 1 \<le> d \<and> d < r \<longrightarrow> 5 \<le> weekday d"
      by blast
    have ret: "next_trading_day_while next_day = Inr r"
      by (subst next_trading_day_while.simps) (simp add: weekend step run)
    have "5 \<le> weekday d" if "next_day \<le> d" "d < r" for d
    proof (cases "d = next_day")
      case True
      with weekend show ?thesis
        by simp
    next
      case False
      with that skipped show ?thesis
        by simp
    qed
    with ret ge le wd show ?thesis
      by auto
  next
    case False
    then have "next_trading_day_while next_day = Inr next_day"
      by (subst next_trading_day_while.simps) simp
    with False "1.prems"(2) show ?thesis
      by simp
  qed
qed

lemma next_trading_day_result:
  assumes "date_min \<le> day" and "day < date_max"
  shows "\<exists>r. next_trading_day day = Inr r \<and> day < r \<and> r \<le> date_max \<and> weekday r < 5
           \<and> (\<forall>d. day < d \<and> d < r \<longrightarrow> 5 \<le> weekday d)"
proof -
  from assms have step: "add_days day 1 = Inr (day + 1)"
    by (simp add: add_days_def)
  from assms have "date_min \<le> day + 1" "day + 1 \<le> date_max"
    by simp_all
  from next_trading_day_while_result [OF this]
  obtain r where "next_trading_day_while (day + 1) = Inr r" "day + 1 \<le> r" "r \<le> date_max"
    "weekday r < 5" "\<forall>d. day + 1 \<le> d \<and> d < r \<longrightarrow> 5 \<le> weekday d"
    by blast
  then show ?thesis
    by (intro exI [of _ r]) (simp add: next_trading_day_def step)
qed

text \<open>
  C4, as the code has it. With release flag AMC (in any letter case), for an announcement
  whose calendar date in US/Eastern is a date before 9999-12-31, the resolved session day
  is the next trading day after that date: it is strictly after the date, it is a weekday
  (neither Saturday, 5, nor Sunday, 6), and every day strictly between the two is a
  Saturday or a Sunday, so it is the earliest such weekday.
\<close>

theorem amc_session_day_is_next_weekday:
  assumes "upper release_flag = ''AMC''"
    and "date_min \<le> eastern_date eastern (normalize_timestamp earnings_date)"
    and "eastern_date eastern (normalize_timestamp earnings_date) < date_max"
  shows "\<exists>r. get_session_day eastern earnings_date release_flag = Inr r
           \<and> next_trading_day (eastern_date eastern (normalize_timestamp earnings_date)) = Inr r
           \<and> eastern_date eastern (normalize_timestamp earnings_date) < r
           \<and> r \<le> date_max
           \<and> weekday r \<noteq> 5 \<and> weekday r \<noteq> 6
           \<and> (\<forall>d. eastern_date eastern (normalize_timestamp earnings_date) < d \<and> d < r
                 \<longrightarrow> weekday d = 5 \<or> weekday d = 6)"
proof -
  define day where "day = eastern_date eastern (normalize_timestamp earnings_date)"
  from assms(2,3) have range: "date_min \<le> day" "day < date_max"
    by (simp_all add: day_def)
  from next_trading_day_result [OF range]
  obtain r where nxt: "next_trading_day day = Inr r" and after: "day < r"
    and le: "r \<le> date_max" and wd: "weekday r < 5"
    and skipped: "\<forall>d. day < d \<and> d < r \<longrightarrow> 5 \<le> weekday d"
    by blast
  have date: "timestamp_date eastern (normalize_timestamp earnings_date) = Inr day"
    using range by (simp add: timestamp_date_def day_def)
  have ret: "get_session_day eastern earnings_date release_flag = Inr r"
    using assms(1) by (simp add: get_session_day_def Let_def date nxt)
  have first: "weekday d = 5 \<or> weekday d = 6" if "day < d" "d < r" for d
  proof -
    from that skipped have "5 \<le> weekday d"
      by simp
    moreover have "weekday d < 7"
      by (simp add: weekday_def)
    ultimately show ?thesis
      by arith
  qed
  from ret nxt after le wd first show ?thesis
    unfolding day_def [symmetric] by auto
qed

theorem amc_session_day_is_next_weekday_witness:
  "upper ''amc'' = ''AMC''
   \<and> eastern_date (\<lambda>i. - 18000000000000) (normalize_timestamp (Naive 1705095000000000000)) = 738897
   \<and> date_min \<le> 738897 \<and> 738897 < date_max
   \<and> get_session_day (\<lambda>i. - 18000000000000) (Naive 1705095000000000000) ''amc'' = Inr 738900
   \<and> weekday 738897 = 4 \<and> weekday 738898 = 5 \<and> weekday 738899 = 6 \<and> weekday 738900 = 0"
proof -
  have up: "upper ''amc'' = ''AMC''"
    by (simp add: upper_def upper_char_def)
  have day: "eastern_date (\<lambda>i. - 18000000000000) (normalize_timestamp (Naive 1705095000000000000))
               = 738897"
    by (simp add: eastern_date_def normalize_timestamp_def date_of_ns_def ns_per_day_def
        epoch_ordinal_def)
  have range: "date_min \<le> (738897 :: int)" "(738897 :: int) < date_max"
    by (simp_all add: date_min_def date_max_def)
  have nxt: "next_trading_day 738897 = Inr 738900"
    by (simp add: next_trading_day_def next_trading_day_while.simps weekday_def add_days_def
        date_min_def date_max_def)
  from amc_session_day_is_next_weekday [OF up, of "\<lambda>i. - 18000000000000"
      "Naive 1705095000000000000"] range
  have "get_session_day (\<lambda>i. - 18000000000000) (Naive 1705095000000000000) ''amc'' = Inr 738900"
    unfolding day nxt by auto
  with up day range show ?thesis
    by (simp add: weekday_def)
qed

text \<open>
  An announcement after the close on 9999-12-31, the last date there is: the step to the
  next day raises, and no session day is resolved.
\<close>

theorem amc_session_day_counterexample:
  "upper ''AMC'' = ''AMC''
   \<and> eastern_date est (normalize_timestamp (Naive 253402257600000000000)) = date_max
   \<and> get_session_day est (Naive 253402257600000000000) ''AMC'' = Inl OverflowError"
  by (simp add: upper_def upper_char_def get_session_day_def Let_def timestamp_date_def
      next_trading_day_def add_days_def est_def eastern_date_def normalize_timestamp_def
      date_of_ns_def ns_per_day_def epoch_ordinal_def date_min_def date_max_def)

text \<open>
  C5, as the code has it. With release flag BMO (in any letter case), for an announcement
  whose calendar date in US/Eastern is a date of the years 1 to 9999, the resolved session
  day is that date: the timestamp is normalized to US/Eastern first, an aware timestamp
  keeping its instant and a naive one having its wall-clock reading taken as a UTC
  instant, and the date is read off after adding the zone's UTC offset at that instant.
\<close>

theorem bmo_session_day_is_normalized_date:
  assumes "upper release_flag = ''BMO''"
    and "date_min \<le> eastern_date eastern (normalize_timestamp earnings_date)"
    and "eastern_date eastern (normalize_timestamp earnings_date) \<le> date_max"
  shows "get_session_day eastern earnings_date release_flag
           = Inr (eastern_date eastern (normalize_timestamp earnings_date))
         \<and> eastern_date eastern (normalize_timestamp earnings_date)
           = (case earnings_date of
                Naive w \<Rightarrow> epoch_ordinal + (w + eastern w) div ns_per_day
              | Aware i \<Rightarrow> epoch_ordinal + (i + eastern i) div ns_per_day)"
  using assms
  by (cases earnings_date)
    (simp_all add: get_session_day_def Let_def timestamp_date_def eastern_date_def
      normalize_timestamp_def date_of_ns_def)

theorem bmo_session_day_is_normalized_date_witness:
  "upper ''Bmo'' = ''BMO''
   \<and> eastern_date (\<lambda>i. - 18000000000000) (normalize_timestamp (Naive 1705276800000000000)) = 738899
   \<and> date_min \<le> 738899 \<and> 738899 \<le> date_max
   \<and> get_session_day (\<lambda>i. - 18000000000000) (Naive 1705276800000000000) ''Bmo'' = Inr 738899"
proof -
  have up: "upper ''Bmo'' = ''BMO''"
    by (simp add: upper_def upper_char_def)
  have day: "eastern_date (\<lambda>i. - 18000000000000) (normalize_timestamp (Naive 1705276800000000000))
               = 738899"
    by (simp add: eastern_date_def normalize_timestamp_def date_of_ns_def ns_per_day_def
        epoch_ordinal_def)
  have range: "date_min \<le> (738899 :: int)" "(738899 :: int) \<le> date_max"
    by (simp_all add: date_min_def date_max_def)
  note bmo = bmo_session_day_is_normalized_date [OF up, of "\<lambda>i. - 18000000000000"
      "Naive 1705276800000000000", unfolded day, OF range, THEN conjunct1]
  from bmo up day range show ?thesis
    by simp
qed

text \<open>
  An announcement before the open whose naive timestamp reads 0001-01-01 02:00: taken as
  UTC, it falls on the day before 0001-01-01 in US/Eastern, which is no date, and no
  session day is resolved. This is so five hours behind UTC as well as at the zone's local
  mean time of that year, 4:56:02 behind.
\<close>

theorem bmo_session_day_counterexample:
  "upper ''BMO'' = ''BMO''
   \<and> eastern_date est (normalize_timestamp (Naive (- 62135589600000000000))) = date_min - 1
   \<and> get_session_day est (Naive (- 62135589600000000000)) ''BMO'' = Inl NotImplementedError
   \<and> get_session_day local_mean_time (Naive (- 62135589600000000000)) ''BMO''
       = Inl NotImplementedError"
  by (simp add: upper_def upper_char_def get_session_day_def Let_def timestamp_date_def
      est_def local_mean_time_def eastern_date_def normalize_timestamp_def date_of_ns_def
      ns_per_day_def epoch_ordinal_def date_min_def date_max_def)

subsection \<open>The loop over the events\<close>

lemmas calendar_eval =
  timestamp_date_def next_trading_day_def previous_trading_day_def add_days_def
  next_trading_day_while.simps previous_trading_day_while.simps weekday_def
  date_min_def date_max_def est_def eastern_date_def normalize_timestamp_def
  date_of_ns_def ns_per_day_def epoch_ordinal_def

lemma analyze_event_skipped:
  assumes "(upper (py_str (ev_release_flag ev)) \<noteq> ''AMC'' \<and> upper (py_str (ev_release_flag ev)) \<noteq> ''BMO'')
           \<or> ev_earnings_date ev = None"
  shows "analyze_event c eastern ticker ev = Inr None"
  using assms by (auto simp: analyze_event_def Let_def)

lemma analyze_loop_skip:
  assumes "analyze_event c eastern ticker ev = Inr None"
  shows "analyze_loop c eastern ticker (before @ ev # after) records
           = analyze_loop c eastern ticker (before @ after) records"
  using assms
  by (induction before arbitrary: records) (auto split: sum.splits option.splits)

subsection \<open>Reaction metrics\<close>

text \<open>
  C3. For an event with a supported flag and a timestamp whose session has a bar series that
  is not empty, the analyzer appends a record whose open is the open of the first bar,
  whose close is the close of the last bar, whose high is the greatest high and whose low
  is the least low of the series; the gap return is open / previous close - 1 exactly when
  the previous close is present and not zero and is absent otherwise; the open-to-close
  return is close / open - 1 and the range is (high - low) / open exactly when the open is
  not zero, and both are absent otherwise.
\<close>

theorem reaction_metrics_of_session:
  assumes flag: "upper (py_str (ev_release_flag ev)) = ''AMC'' \<or> upper (py_str (ev_release_flag ev)) = ''BMO''"
    and ts: "ev_earnings_date ev = Some ts"
    and day: "get_session_day eastern ts (upper (py_str (ev_release_flag ev))) = Inr day"
    and bars: "fetch_agg_bars c ticker day = Inr intraday_df"
    and nonempty: "intraday_df \<noteq> []"
    and prev: "get_previous_close c ticker day = Inr previous_close"
  shows "\<exists>r. analyze_event c eastern ticker ev = Inr (Some r)
           \<and> m_open r = bar_open (intraday_df ! 0)
           \<and> m_close r = bar_close (intraday_df ! (length intraday_df - 1))
           \<and> (\<forall>b \<in> set intraday_df. bar_high b \<le> m_high r)
           \<and> (\<exists>b \<in> set intraday_df. bar_high b = m_high r)
           \<and> (\<forall>b \<in> set intraday_df. m_low r \<le> bar_low b)
           \<and> (\<exists>b \<in> set intraday_df. bar_low b = m_low r)
           \<and> m_prev_close r = previous_close
           \<and> m_gap_ret r = (case previous_close of
                               None \<Rightarrow> None
                             | Some p \<Rightarrow> if p \<noteq> 0 then Some (m_open r / p - 1) else None)
           \<and> m_oc_ret r = (if m_open r \<noteq> 0 then Some (m_close r / m_open r - 1) else None)
           \<and> m_range_pct r = (if m_open r \<noteq> 0
                               then Some ((m_high r - m_low r) / m_open r) else None)"
proof -
  define r where "r = reaction_metrics ticker ts (upper (py_str (ev_release_flag ev))) day
                        intraday_df previous_close"
  have up: "upper (upper (py_str (ev_release_flag ev))) = upper (py_str (ev_release_flag ev))"
    using flag by (auto simp: upper_def upper_char_def)
  have window: "get_intraday_window c eastern ticker ts (upper (py_str (ev_release_flag ev)))
                  = Inr intraday_df"
    using flag day bars up by (auto simp: get_intraday_window_def Let_def)
  have ret: "analyze_event c eastern ticker ev = Inr (Some r)"
    using flag ts day window nonempty prev
    by (auto simp: analyze_event_def Let_def r_def)
  have fin: "finite (set (map bar_high intraday_df))" "set (map bar_high intraday_df) \<noteq> {}"
    "finite (set (map bar_low intraday_df))" "set (map bar_low intraday_df) \<noteq> {}"
    using nonempty by simp_all
  have hi: "m_high r = Max (set (map bar_high intraday_df))"
    and lo: "m_low r = Min (set (map bar_low intraday_df))"
    and op: "m_open r = bar_open (hd intraday_df)"
    and cl: "m_close r = bar_close (last intraday_df)"
    by (simp_all add: r_def reaction_metrics_def Let_def)
  have hi_ub: "\<forall>b \<in> set intraday_df. bar_high b \<le> m_high r"
    unfolding hi using fin by (auto intro: Max_ge)
  have hi_in: "\<exists>b \<in> set intraday_df. bar_high b = m_high r"
    using Max_in [OF fin(1,2)] unfolding hi by auto
  have lo_lb: "\<forall>b \<in> set intraday_df. m_low r \<le> bar_low b"
    unfolding lo using fin by (auto intro: Min_le)
  have lo_in: "\<exists>b \<in> set intraday_df. bar_low b = m_low r"
    using Min_in [OF fin(3,4)] unfolding lo by auto
  have op': "m_open r = bar_open (intraday_df ! 0)"
    using nonempty op by (simp add: hd_conv_nth)
  have cl': "m_close r = bar_close (intraday_df ! (length intraday_df - 1))"
    using nonempty cl by (simp add: last_conv_nth)
  have pc: "m_prev_close r = previous_close"
    by (simp add: r_def reaction_metrics_def Let_def)
  have gap: "m_gap_ret r = (case previous_close of
                               None \<Rightarrow> None
                             | Some p \<Rightarrow> if p \<noteq> 0 then Some (m_open r / p - 1) else None)"
    by (simp add: r_def reaction_metrics_def Let_def split: option.splits)
  have oc: "m_oc_ret r = (if m_open r \<noteq> 0 then Some (m_close r / m_open r - 1) else None)"
    by (simp add: r_def reaction_metrics_def Let_def)
  have rg: "m_range_pct r = (if m_open r \<noteq> 0
                               then Some ((m_high r - m_low r) / m_open r) else None)"
    by (simp add: r_def reaction_metrics_def Let_def)
  from ret op' cl' hi_ub hi_in lo_lb lo_in pc gap oc rg show ?thesis
    by blast
qed

theorem reaction_metrics_of_session_witness:
  "\<exists>r. analyze_event example_client est ''X'' (example_event ''bmo'') = Inr (Some r)
      \<and> m_open r = 100 \<and> m_close r = 105 \<and> m_high r = 110 \<and> m_low r = 95
      \<and> m_prev_close r = Some 98
      \<and> m_gap_ret r = Some (1 / 49) \<and> \<bar>1 / 49 - 0.0204\<bar> < (0.0001 :: real)
      \<and> m_oc_ret r = Some 0.05 \<and> m_range_pct r = Some 0.15"
proof -
  have flag: "upper (py_str (ev_release_flag (example_event ''bmo''))) = ''AMC''
              \<or> upper (py_str (ev_release_flag (example_event ''bmo''))) = ''BMO''"
    by (simp add: example_event_def upper_def upper_char_def)
  have ts: "ev_earnings_date (example_event ''bmo'') = Some (Aware 1705325400000000000)"
    by (simp add: example_event_def)
  have day: "get_session_day est (Aware 1705325400000000000)
               (upper (py_str (ev_release_flag (example_event ''bmo'')))) = Inr 738900"
    by (simp add: example_event_def upper_def upper_char_def get_session_day_def Let_def
        calendar_eval)
  have bars: "fetch_agg_bars example_client ''X'' 738900 =
                Inr [\<lparr>bar_timestamp = 0, bar_open = 100, bar_high = 108, bar_low = 99,
                      bar_close = 107, bar_volume = 1\<rparr>,
                     \<lparr>bar_timestamp = 300000000000, bar_open = 107, bar_high = 110, bar_low = 95,
                      bar_close = 105, bar_volume = 1\<rparr>]"
    by (simp add: fetch_agg_bars_def example_client_def)
  have prev: "get_previous_close example_client ''X'' 738900 = Inr (Some 98)"
    by (simp add: get_previous_close_def example_client_def calendar_eval)
  from reaction_metrics_of_session [OF flag ts day bars _ prev]
  obtain r where r: "analyze_event example_client est ''X'' (example_event ''bmo'') = Inr (Some r)"
    "m_open r = 100" "m_close r = 105" "108 \<le> m_high r" "110 \<le> m_high r"
    "m_high r = 108 \<or> m_high r = 110" "m_low r \<le> 99" "m_low r \<le> 95"
    "m_low r = 99 \<or> m_low r = 95" "m_prev_close r = Some 98"
    "m_gap_ret r = Some (m_open r / 98 - 1)"
    "m_oc_ret r = (if m_open r \<noteq> 0 then Some (m_close r / m_open r - 1) else None)"
    "m_range_pct r = (if m_open r \<noteq> 0 then Some ((m_high r - m_low r) / m_open r) else None)"
    by auto
  from r(4-9) have hl: "m_high r = 110" "m_low r = 95"
    by auto
  from r(1-3,10-13) hl show ?thesis
    by (intro exI [of _ r]) simp
qed

subsection \<open>Skipped events\<close>

text \<open>
  C9. An event whose upper-cased release flag is neither AMC nor BMO, or whose
  announcement timestamp is missing, gives no record and no error, and the loop goes on:
  the run over the events is the run over the events without it.
\<close>

theorem unsupported_event_is_skipped:
  assumes "(upper (py_str (ev_release_flag ev)) \<noteq> ''AMC''
              \<and> upper (py_str (ev_release_flag ev)) \<noteq> ''BMO'')
           \<or> ev_earnings_date ev = None"
  shows "analyze_event c eastern ticker ev = Inr None
         \<and> analyze_loop c eastern ticker (before @ ev # after) records
             = analyze_loop c eastern ticker (before @ after) records
         \<and> (events \<noteq> [] \<and> sort_values events = before @ ev # after
              \<longrightarrow> analyze_ticker c eastern sort_values ticker events
                    = analyze_loop c eastern ticker (before @ after) [])"
  using analyze_event_skipped [OF assms] analyze_loop_skip
  by (simp add: analyze_ticker_def)

theorem unsupported_event_is_skipped_witness:
  "analyze_event example_client est ''X'' (example_event ''TNS'') = Inr None
   \<and> analyze_event example_client est ''X''
         ((example_event ''AMC'')\<lparr>ev_earnings_date := None\<rparr>) = Inr None
   \<and> analyze_ticker example_client est (\<lambda>events. events) ''X''
         [example_event ''BMO'', example_event ''TNS'',
          (example_event ''AMC'')\<lparr>ev_earnings_date := None\<rparr>, example_event ''amc'']
       = analyze_loop example_client est ''X'' [example_event ''BMO'', example_event ''amc''] []
   \<and> (\<exists>r1 r2. analyze_loop example_client est ''X''
                    [example_event ''BMO'', example_event ''amc''] [] = Inr [r1, r2]
          \<and> m_release_flag r1 = ''BMO'' \<and> m_release_flag r2 = ''AMC'')"
proof -
  let ?nat = "(example_event ''AMC'')\<lparr>ev_earnings_date := None\<rparr>"
  have bad_flag: "(upper (py_str (ev_release_flag (example_event ''TNS''))) \<noteq> ''AMC''
                    \<and> upper (py_str (ev_release_flag (example_event ''TNS''))) \<noteq> ''BMO'')
                  \<or> ev_earnings_date (example_event ''TNS'') = None"
    by (simp add: example_event_def upper_def upper_char_def)
  have no_date: "(upper (py_str (ev_release_flag ?nat)) \<noteq> ''AMC''
                    \<and> upper (py_str (ev_release_flag ?nat)) \<noteq> ''BMO'')
                  \<or> ev_earnings_date ?nat = None"
    by simp
  note first = unsupported_event_is_skipped [OF bad_flag, of example_client est "''X''"
      "[example_event ''BMO'']" "[?nat, example_event ''amc'']" "[]"
      "[example_event ''BMO'', example_event ''TNS'', ?nat, example_event ''amc'']"
      "\<lambda>events. events"]
  note second = unsupported_event_is_skipped [OF no_date, of example_client est "''X''"
      "[example_event ''BMO'']" "[example_event ''amc'']" "[]"
      "[example_event ''BMO'', ?nat, example_event ''amc'']" "\<lambda>events. events"]
  have run: "\<exists>r1 r2. analyze_loop example_client est ''X''
                    [example_event ''BMO'', example_event ''amc''] [] = Inr [r1, r2]
               \<and> m_release_flag r1 = ''BMO'' \<and> m_release_flag r2 = ''AMC''"
    by (simp add: analyze_event_def Let_def upper_def upper_char_def get_session_day_def
        get_intraday_window_def fetch_agg_bars_def get_previous_close_def example_client_def
        example_event_def reaction_metrics_def calendar_eval)
  from first second run show ?thesis
    by simp
qed

subsection \<open>Consistency score\<close>

lemma bool_mean_map: "bool_mean (map P xs) = real (length (filter P xs)) / real (length xs)"
proof -
  have "filter (\<lambda>b. b) (map P xs) = map P (filter P xs)"
    by (induction xs) auto
  then show ?thesis
    by (simp add: bool_mean_def)
qed



lemma map_filter_present:
  "List.map_filter m_oc_ret (filter (\<lambda>m. m_oc_ret m \<noteq> None) ms) = List.map_filter m_oc_ret ms"
  by (induction ms) (auto split: option.splits)

lemma length_map_filter_present:
  "length (List.map_filter m_oc_ret ms) = length (filter (\<lambda>m. m_oc_ret m \<noteq> None) ms)"
  by (induction ms) (auto split: option.splits)

lemma score_unfold:
  assumes "filter (\<lambda>m. m_oc_ret m \<noteq> None) events_metrics \<noteq> []"
    and "median_abs_oc_non_earnings sc eastern sort_desc ticker
           (filter (\<lambda>m. m_oc_ret m \<noteq> None) events_metrics) = Inr non"
  shows "score sc eastern sort_desc float_mean ticker events_metrics =
           Inr \<lparr>s_hit_main_dir =
                  (if float_mean (List.map_filter m_oc_ret events_metrics) > 0
                   then bool_mean (map (\<lambda>x. x > 0) (List.map_filter m_oc_ret events_metrics))
                   else if float_mean (List.map_filter m_oc_ret events_metrics) < 0
                   then bool_mean (map (\<lambda>x. x < 0) (List.map_filter m_oc_ret events_metrics))
                   else 0),
                s_big_move_hit =
                  bool_mean (map (\<lambda>x. \<bar>x\<bar> \<ge> 0.02) (List.map_filter m_oc_ret events_metrics)),
                s_boost = boost_of (median (map abs (List.map_filter m_oc_ret events_metrics))) non,
                s_score =
                  0.5 * (if float_mean (List.map_filter m_oc_ret events_metrics) > 0
                   then bool_mean (map (\<lambda>x. x > 0) (List.map_filter m_oc_ret events_metrics))
                   else if float_mean (List.map_filter m_oc_ret events_metrics) < 0
                   then bool_mean (map (\<lambda>x. x < 0) (List.map_filter m_oc_ret events_metrics))
                   else 0)
                  + 0.3 * bool_mean (map (\<lambda>x. \<bar>x\<bar> \<ge> 0.02) (List.map_filter m_oc_ret events_metrics))
                  + 0.2 * boost_of (median (map abs (List.map_filter m_oc_ret events_metrics))) non,
                s_events_count = length (filter (\<lambda>m. m_oc_ret m \<noteq> None) events_metrics)\<rparr>"
proof -
  have ne: "events_metrics \<noteq> []"
    using assms(1) by auto
  have pos: "map ((\<lambda>s. s = 1) \<circ> (\<lambda>x. if 0 < x then 1 else if x < 0 then - 1 else (0::int))) xs
               = map (\<lambda>x. 0 < x) xs" for xs :: "real list"
    by (induction xs) auto
  have neg: "map ((\<lambda>s. s = - 1) \<circ> (\<lambda>x. if 0 < x then 1 else if x < 0 then - 1 else (0::int))) xs
               = map (\<lambda>x. x < 0) xs" for xs :: "real list"
    by (induction xs) auto
  show ?thesis
    using assms ne
    by (simp add: score_def Let_def map_filter_present pos neg del: not_None_eq)
qed



lemma example_valid:
  "filter (\<lambda>m. m_oc_ret m \<noteq> None) example_table =
     [example_metric 738627 100 104, example_metric 738718 100 103,
      example_metric 738809 100 103, example_metric 738900 100 101]"
  by (simp add: example_table_def example_metric_def del: not_None_eq)

lemma example_oc: "List.map_filter m_oc_ret example_table = [0.04, 0.03, 0.03, 0.01]"
  by (simp add: example_table_def example_metric_def)

lemma example_baseline:
  "median_abs_oc_non_earnings (ConsistencyScorer baseline_client) est newest_first ''X''
     (filter (\<lambda>m. m_oc_ret m \<noteq> None) example_table) = Inr (Fin 0.01)"
  unfolding example_valid
  by (simp add: median_abs_oc_non_earnings_def Let_def ConsistencyScorer_def
      baseline_client_def get_daily_bars_def est_def eastern_date_def date_of_ns_def
      ns_per_day_def epoch_ordinal_def example_metric_def newest_first_def head_def
      nanmedian_def abs_oc_ret_def)

lemma example_median: "median (map abs [0.04, 0.03, 0.03, 0.01 :: real]) = 0.03"
  by (simp add: median_def Let_def)

text \<open>
  C1. When some record has a present open-to-close return and the baseline is obtained, the
  scorer returns a record whose big-move rate is the fraction of the present returns with
  absolute value at least 0.02, whose boost is the median of the absolute returns divided
  by the baseline median when that median is a positive number and 0 otherwise (an
  infinite baseline gives the quotient 0, a missing one is not positive), and whose score
  is 0.5 * hit rate + 0.3 * big-move rate + 0.2 * boost; the event count is the number of
  present returns.
\<close>

theorem score_big_move_boost_composite:
  assumes valid: "filter (\<lambda>m. m_oc_ret m \<noteq> None) events_metrics \<noteq> []"
    and baseline: "median_abs_oc_non_earnings sc eastern sort_desc ticker
                     (filter (\<lambda>m. m_oc_ret m \<noteq> None) events_metrics) = Inr non_earnings_median_abs"
  shows "\<exists>r. score sc eastern sort_desc float_mean ticker events_metrics = Inr r
           \<and> s_events_count r = length (List.map_filter m_oc_ret events_metrics)
           \<and> s_big_move_hit r
               = real (length (filter (\<lambda>x. 0.02 \<le> \<bar>x\<bar>) (List.map_filter m_oc_ret events_metrics)))
                 / real (length (List.map_filter m_oc_ret events_metrics))
           \<and> s_boost r
               = (case non_earnings_median_abs of
                    Fin b \<Rightarrow>
                      if 0 < b
                      then median (map abs (List.map_filter m_oc_ret events_metrics)) / b
                      else 0
                  | PosInf \<Rightarrow> 0
                  | NaN \<Rightarrow> 0)
           \<and> s_score r = 0.5 * s_hit_main_dir r + 0.3 * s_big_move_hit r + 0.2 * s_boost r"
proof -
  note ret = score_unfold [OF valid baseline]
  have boost: "boost_of e non_earnings_median_abs
                 = (case non_earnings_median_abs of
                      Fin b \<Rightarrow> if 0 < b then e / b else 0 | PosInf \<Rightarrow> 0 | NaN \<Rightarrow> 0)" for e
    by (cases non_earnings_median_abs) (auto simp: boost_of_def)
  show ?thesis
    unfolding ret by (simp add: bool_mean_map length_map_filter_present boost del: not_None_eq)
qed

theorem score_big_move_boost_composite_witness:
  "filter (\<lambda>m. m_oc_ret m \<noteq> None) example_table \<noteq> []
   \<and> median_abs_oc_non_earnings (ConsistencyScorer baseline_client) est newest_first ''X''
         (filter (\<lambda>m. m_oc_ret m \<noteq> None) example_table) = Inr (Fin 0.01)
   \<and> (\<exists>r. score (ConsistencyScorer baseline_client) est newest_first mean64 ''X'' example_table = Inr r
          \<and> s_events_count r = 4 \<and> s_big_move_hit r = 0.75 \<and> s_boost r = 3
          \<and> s_score r = 0.5 * s_hit_main_dir r + 0.3 * 0.75 + 0.2 * 3)"
proof -
  have valid: "filter (\<lambda>m. m_oc_ret m \<noteq> None) example_table \<noteq> []"
    unfolding example_valid by simp
  from score_big_move_boost_composite [OF valid example_baseline, where float_mean = mean64]
  obtain r where r: "score (ConsistencyScorer baseline_client) est newest_first mean64 ''X'' example_table
                       = Inr r"
    and count: "s_events_count r = 4"
    and big: "s_big_move_hit r = 0.75"
    and boost: "s_boost r = 3"
    and total: "s_score r = 0.5 * s_hit_main_dir r + 0.3 * s_big_move_hit r + 0.2 * s_boost r"
    unfolding example_oc example_median by auto
  from total have "s_score r = 0.5 * s_hit_main_dir r + 0.3 * 0.75 + 0.2 * 3"
    unfolding big boost .
  with r count big boost valid example_baseline show ?thesis
    by blast
qed

subsection \<open>Float64 rounding\<close>

lemma bit_length_binade:
  assumes "2 ^ k \<le> n" and "n < 2 ^ Suc k"
  shows "bit_length n = Suc k"
  using assms
proof (induction k arbitrary: n)
  case 0
  then have "n = 1"
    by simp
  then show ?case
    by (simp add: bit_length.simps)
next
  case (Suc k)
  from Suc.prems have "2 ^ k \<le> n div 2" "n div 2 < 2 ^ Suc k"
    by simp_all
  then have "bit_length (n div 2) = Suc k"
    by (rule Suc.IH)
  moreover have "(0 :: int) < 2 ^ Suc k"
    by simp
  with Suc.prems have "0 < n"
    by linarith
  ultimately show ?case
    by (subst bit_length.simps) simp
qed

lemma round64_zero: "round64 0 = 0"
  by (simp add: round64_def round_half_even_def bit_length.simps)

lemma round64_binade:
  assumes "53 \<le> k" and "2 ^ k \<le> \<lfloor>\<bar>x * 2 ^ 1074\<bar>\<rfloor>" and "\<lfloor>\<bar>x * 2 ^ 1074\<bar>\<rfloor> < 2 ^ Suc k"
  shows "round64 x
           = of_int (round_half_even (x * 2 ^ 1074 / 2 ^ (k - 52))) * 2 ^ (k - 52) / 2 ^ 1074"
proof -
  have b: "bit_length \<lfloor>\<bar>x * 2 ^ 1074\<bar>\<rfloor> = Suc k"
    using assms(2,3) by (rule bit_length_binade)
  from assms(1) have "\<not> Suc k \<le> 53" and "Suc k - 53 = k - 52"
    by simp_all
  then show ?thesis
    unfolding round64_def Let_def b by simp
qed

lemma round64_one: "round64 1 = 1"
  by (subst round64_binade [where k = 1074]) (simp_all add: round_half_even_def)

lemma round64_one_plus: "round64 (1 + 1 / 2 ^ 60) = 1"
  by (subst round64_binade [where k = 1074]) (simp_all add: round_half_even_def)

lemma mean64_cancel: "mean64 [1, 1 / 2 ^ 60, - 1] = 0"
  using round64_one_plus by (simp add: mean64_def round64_one round64_zero)

lemma round64_half: "round64 (1 / 2) = 1 / 2"
  by (subst round64_binade [where k = 1073]) (simp_all add: round_half_even_def)

lemma round64_three_quarters: "round64 (3 / 4) = 3 / 4"
  by (subst round64_binade [where k = 1073]) (simp_all add: round_half_even_def)

lemma round64_three_eighths: "round64 (3 / 8) = 3 / 8"
  by (subst round64_binade [where k = 1072]) (simp_all add: round_half_even_def)

lemma mean64_dyadic: "mean64 [1 / 2, 1 / 4] = 3 / 8"
proof -
  have first: "round64 (0 + 1 / 2) = 1 / 2"
    by (simp only: add_0 round64_half)
  have "(1 / 2 + 1 / 4 :: real) = 3 / 4"
    by simp
  then have second: "round64 (1 / 2 + 1 / 4) = 3 / 4"
    by (simp only: round64_three_quarters)
  have "3 / 4 / real (length [1 / 2, 1 / 4 :: real]) = 3 / 8"
    by simp
  then have mean: "round64 (3 / 4 / real (length [1 / 2, 1 / 4 :: real])) = 3 / 8"
    by (simp only: round64_three_eighths)
  show ?thesis
    unfolding mean64_def foldl_Cons foldl_Nil first second mean by (rule refl)
qed

lemma dyadic_valid:
  "filter (\<lambda>m. m_oc_ret m \<noteq> None) dyadic_table
     = [example_metric 738809 100 150, example_metric 738900 100 125]"
  by (simp add: dyadic_table_def example_metric_def del: not_None_eq)

lemma dyadic_oc: "List.map_filter m_oc_ret dyadic_table = [1 / 2, 1 / 4]"
  by (simp add: dyadic_table_def example_metric_def)

lemma dyadic_baseline:
  "median_abs_oc_non_earnings (ConsistencyScorer baseline_client) est newest_first ''X''
     (filter (\<lambda>m. m_oc_ret m \<noteq> None) dyadic_table) = Inr (Fin 0.01)"
  unfolding dyadic_valid
  by (simp add: median_abs_oc_non_earnings_def Let_def ConsistencyScorer_def
      baseline_client_def get_daily_bars_def est_def eastern_date_def date_of_ns_def
      ns_per_day_def epoch_ordinal_def example_metric_def newest_first_def head_def
      nanmedian_def abs_oc_ret_def)

lemma rounding_valid:
  "filter (\<lambda>m. m_oc_ret m \<noteq> None) rounding_table = rounding_table"
  by (simp add: rounding_table_def example_metric_def del: not_None_eq)

lemma rounding_oc: "List.map_filter m_oc_ret rounding_table = [1, 1 / 2 ^ 60, - 1]"
  by (simp add: rounding_table_def example_metric_def)

lemma rounding_baseline:
  "median_abs_oc_non_earnings (ConsistencyScorer baseline_client) est newest_first ''X''
     (filter (\<lambda>m. m_oc_ret m \<noteq> None) rounding_table) = Inr (Fin 0.01)"
  unfolding rounding_valid
  by (simp add: rounding_table_def median_abs_oc_non_earnings_def Let_def ConsistencyScorer_def
      baseline_client_def get_daily_bars_def est_def eastern_date_def date_of_ns_def
      ns_per_day_def epoch_ordinal_def example_metric_def newest_first_def head_def
      nanmedian_def abs_oc_ret_def)

subsection \<open>Directional hit rate\<close>

text \<open>
  C2, as the code has it. Under the same conditions the hit rate follows the sign of the
  mean of the present returns as it is computed in float64: with a positive computed mean it
  is the fraction of positive returns, with a negative one the fraction of negative
  returns, and with a computed mean of zero it is 0; a return equal to 0 counts for neither
  sign. If all present returns are positive, their computed mean is positive and the hit
  rate is 1; if the computed mean is zero, as for returns that cancel in the sum, the hit
  rate is 0. The computed mean is the library's: the statement asks of it only that it is
  positive on positive returns.
\<close>

theorem score_hit_main_dir:
  assumes valid: "filter (\<lambda>m. m_oc_ret m \<noteq> None) events_metrics \<noteq> []"
    and baseline: "median_abs_oc_non_earnings sc eastern sort_desc ticker
                     (filter (\<lambda>m. m_oc_ret m \<noteq> None) events_metrics) = Inr non_earnings_median_abs"
    and oc: "oc = List.map_filter m_oc_ret events_metrics"
    and positive: "(\<forall>x \<in> set oc. 0 < x) \<Longrightarrow> 0 < float_mean oc"
  shows "\<exists>r. score sc eastern sort_desc float_mean ticker events_metrics = Inr r
           \<and> s_hit_main_dir r
               = (if 0 < float_mean oc
                  then real (length (filter (\<lambda>x. 0 < x) oc)) / real (length oc)
                  else if float_mean oc < 0
                  then real (length (filter (\<lambda>x. x < 0) oc)) / real (length oc)
                  else 0)
           \<and> ((\<forall>x \<in> set oc. 0 < x) \<longrightarrow> s_hit_main_dir r = 1)
           \<and> (float_mean oc = 0 \<longrightarrow> s_hit_main_dir r = 0)"
proof -
  note ret = score_unfold [OF valid baseline]
  define hit where "hit = (if 0 < float_mean oc
                  then real (length (filter (\<lambda>x. 0 < x) oc)) / real (length oc)
                  else if float_mean oc < 0
                  then real (length (filter (\<lambda>x. x < 0) oc)) / real (length oc)
                  else 0)"
  have ne: "oc \<noteq> []"
    using valid length_map_filter_present [of events_metrics] by (auto simp: oc)
  obtain r where r: "score sc eastern sort_desc float_mean ticker events_metrics = Inr r"
    and h: "s_hit_main_dir r = hit"
    unfolding ret by (simp add: hit_def oc bool_mean_map)
  have all_pos: "s_hit_main_dir r = 1" if "\<forall>x \<in> set oc. 0 < x"
  proof -
    from that have "0 < float_mean oc"
      by (rule positive)
    moreover from that have "filter (\<lambda>x. 0 < x) oc = oc"
      by simp
    ultimately show ?thesis
      using ne by (simp add: h hit_def)
  qed
  have zero_mean: "s_hit_main_dir r = 0" if "float_mean oc = 0"
    using that by (simp add: h hit_def)
  from r h all_pos zero_mean show ?thesis
    unfolding hit_def by blast
qed

theorem score_hit_main_dir_witness:
  "filter (\<lambda>m. m_oc_ret m \<noteq> None) dyadic_table \<noteq> []
   \<and> median_abs_oc_non_earnings (ConsistencyScorer baseline_client) est newest_first ''X''
         (filter (\<lambda>m. m_oc_ret m \<noteq> None) dyadic_table) = Inr (Fin 0.01)
   \<and> List.map_filter m_oc_ret dyadic_table = [1 / 2, 1 / 4]
   \<and> mean64 [1 / 2, 1 / 4] = 3 / 8
   \<and> (\<exists>r. score (ConsistencyScorer baseline_client) est newest_first mean64 ''X'' dyadic_table = Inr r
          \<and> s_hit_main_dir r = 1)"
proof -
  have valid: "filter (\<lambda>m. m_oc_ret m \<noteq> None) dyadic_table \<noteq> []"
    unfolding dyadic_valid by simp
  have positive: "0 < mean64 (List.map_filter m_oc_ret dyadic_table)"
    unfolding dyadic_oc mean64_dyadic by simp
  have pos: "\<forall>x \<in> set (List.map_filter m_oc_ret dyadic_table). 0 < x"
    unfolding dyadic_oc by simp
  from score_hit_main_dir [where float_mean = mean64
      and oc = "List.map_filter m_oc_ret dyadic_table", OF valid dyadic_baseline refl positive] pos
  have "\<exists>r. score (ConsistencyScorer baseline_client) est newest_first mean64 ''X'' dyadic_table = Inr r
          \<and> s_hit_main_dir r = 1"
    by blast
  with valid dyadic_baseline dyadic_oc mean64_dyadic show ?thesis
    by blast
qed

text \<open>
  The sign of the arithmetic mean is not the sign the scorer tests. For the returns 1,
  \<open>2 ^ - 60\<close> and - 1 the arithmetic mean is positive and two returns of three are positive,
  but the float64 sum loses the small return next to 1 and comes out as 0: the computed
  mean is 0 and the hit rate is 0, not 2/3.
\<close>

theorem arithmetic_mean_sign_counterexample:
  "List.map_filter m_oc_ret rounding_table = [1, 1 / 2 ^ 60, - 1]
   \<and> 0 < sum_list [1, 1 / 2 ^ 60, - 1 :: real] / 3
   \<and> real (length (filter ((<) 0) [1, 1 / 2 ^ 60, - 1 :: real])) / 3 = 2 / 3
   \<and> mean64 [1, 1 / 2 ^ 60, - 1] = 0
   \<and> map_sum id s_hit_main_dir
         (score (ConsistencyScorer baseline_client) est newest_first mean64 ''X'' rounding_table)
       = Inr 0"
proof -
  have valid: "filter (\<lambda>m. m_oc_ret m \<noteq> None) rounding_table \<noteq> []"
    unfolding rounding_valid by (simp add: rounding_table_def)
  have "map_sum id s_hit_main_dir
          (score (ConsistencyScorer baseline_client) est newest_first mean64 ''X'' rounding_table)
        = Inr 0"
    unfolding score_unfold [OF valid rounding_baseline] rounding_oc mean64_cancel by simp
  with rounding_oc mean64_cancel show ?thesis
    by simp
qed

text \<open>
  C8. When no record of the table has a present open-to-close return, in particular for
  the empty table, the scorer returns the zero record and raises nothing.
\<close>

theorem score_zero_record:
  assumes "\<forall>m \<in> set events_metrics. m_oc_ret m = None"
  shows "score sc eastern sort_desc float_mean ticker events_metrics
           = Inr \<lparr>s_hit_main_dir = 0, s_big_move_hit = 0, s_boost = 0, s_score = 0,
                  s_events_count = 0\<rparr>"
proof -
  from assms have "filter (\<lambda>m. m_oc_ret m \<noteq> None) events_metrics = []"
    by (simp add: filter_empty_conv)
  then show ?thesis
    by (simp add: score_def Let_def zero_record_def del: not_None_eq)
qed

theorem score_zero_record_witness:
  "map m_oc_ret flat_table = [None, None]
   \<and> score (ConsistencyScorer baseline_client) est newest_first mean64 ''X'' flat_table
       = Inr \<lparr>s_hit_main_dir = 0, s_big_move_hit = 0, s_boost = 0, s_score = 0,
              s_events_count = 0\<rparr>
   \<and> score (ConsistencyScorer baseline_client) est newest_first mean64 ''X'' []
       = Inr \<lparr>s_hit_main_dir = 0, s_big_move_hit = 0, s_boost = 0, s_score = 0,
              s_events_count = 0\<rparr>"
proof -
  have absent: "\<forall>m \<in> set flat_table. m_oc_ret m = None"
    by (simp add: flat_table_def example_metric_def)
  have empty: "\<forall>m \<in> set ([] :: metric list). m_oc_ret m = None"
    by simp
  have cells: "map m_oc_ret flat_table = [None, None]"
    by (simp add: flat_table_def example_metric_def)
  from score_zero_record [OF absent] score_zero_record [OF empty] cells show ?thesis
    by blast
qed



subsection \<open>Non-earnings baseline\<close>













end
